theory Spec2Isabelle
  imports Main "HOL-Library.Char_ord" "HOL-Library.List_Lexorder"
begin

section \<open>Python text primitives\<close>

text \<open>
  A Python \<open>str\<close> is modelled as a \<open>string\<close>, one \<open>char\<close> per code point below 256.
  \<open>isspace\<close> is Python's \<open>str.isspace\<close> on that range (tab, line feed, vertical tab,
  form feed, carriage return, the separators 0x1C to 0x1F, space, 0x85 and 0xA0).
  \<open>upper\<close> and \<open>lower\<close> map the ASCII letters and leave every other character as it is,
  which is what Python does on ASCII text.
\<close>

definition isspace :: "char \<Rightarrow> bool" where
  "isspace c =
     (let n = (of_char c :: nat)
      in (9 \<le> n \<and> n \<le> 13) \<or> (28 \<le> n \<and> n \<le> 32) \<or> n = 133 \<or> n = 160)"

definition upper_char :: "char \<Rightarrow> char" where
  "upper_char c =
     (let n = (of_char c :: nat) in if 97 \<le> n \<and> n \<le> 122 then char_of (n - 32) else c)"

definition lower_char :: "char \<Rightarrow> char" where
  "lower_char c =
     (let n = (of_char c :: nat) in if 65 \<le> n \<and> n \<le> 90 then char_of (n + 32) else c)"

definition upper :: "string \<Rightarrow> string" where
  "upper s = map upper_char s"

definition lower :: "string \<Rightarrow> string" where
  "lower s = map lower_char s"

definition lstrip :: "string \<Rightarrow> string" where
  "lstrip s = dropWhile isspace s"

definition rstrip :: "string \<Rightarrow> string" where
  "rstrip s = rev (dropWhile isspace (rev s))"

definition strip :: "string \<Rightarrow> string" where
  "strip s = rstrip (lstrip s)"

definition startswith :: "string \<Rightarrow> string \<Rightarrow> bool" where
  "startswith s p = (take (length p) s = p)"

text \<open>\<open>contains sub s\<close> is Python's \<open>sub in s\<close>.\<close>

fun contains :: "string \<Rightarrow> string \<Rightarrow> bool" where
  "contains sub [] = (sub = [])"
| "contains sub (c # cs) = (startswith (c # cs) sub \<or> contains sub cs)"

definition newline :: char where
  "newline = CHR 0x0A"

text \<open>\<open>split_nl s\<close> is \<open>s.split("\n")\<close>: it never returns the empty list.\<close>

fun split_nl :: "string \<Rightarrow> string list" where
  "split_nl [] = [[]]"
| "split_nl (c # cs) =
     (if c = newline then [] # split_nl cs
      else (case split_nl cs of [] \<Rightarrow> [[c]] | l # ls \<Rightarrow> (c # l) # ls))"

text \<open>\<open>join sep xs\<close> is \<open>sep.join(xs)\<close>.\<close>

fun join :: "string \<Rightarrow> string list \<Rightarrow> string" where
  "join sep [] = []"
| "join sep [x] = x"
| "join sep (x # y # ys) = x @ sep @ join sep (y # ys)"

definition digit_char :: "nat \<Rightarrow> char" where
  "digit_char d = char_of (48 + d)"

text \<open>\<open>str_nat n\<close> is Python's \<open>str(n)\<close> for a non-negative integer.\<close>

function str_nat :: "nat \<Rightarrow> string" where
  "str_nat n = (if n < 10 then [digit_char n] else str_nat (n div 10) @ [digit_char (n mod 10)])"
  by pat_completeness auto
termination
  by (relation "measure id") auto

declare str_nat.simps [simp del]

section \<open>Exceptions\<close>

text \<open>
  Every exception of the model is a subclass of Python's \<open>Exception\<close>, so each is caught
  by \<open>except Exception\<close>. \<open>str_exn\<close> is \<open>str(e)\<close>, the message the exception was built with.
\<close>

datatype exn_kind =
    ValueError | RuntimeError | AttributeError | OperationalError | IntegrityError | OtherError

datatype exn = Exn (kind: exn_kind) (message: string)

definition str_exn :: "exn \<Rightarrow> string" where
  "str_exn e = message e"

section \<open>The relational store\<close>

text \<open>
  A value of a result row, a table with its declared columns, and the database file as
  the list of its tables in creation order. \<open>SReal n\<close> is the float of the whole number
  \<open>n\<close>: every REAL of the seed data is whole.
\<close>

datatype sqlval = SNull | SInt int | SReal int | SText string

type_synonym row = "sqlval list"

record column =
  cname :: string
  ctype :: string
  notnull :: bool
  pk :: bool
  uniq :: bool

record table =
  tcols :: "column list"
  trows :: "row list"

type_synonym database = "(string \<times> table) list"

text \<open>
  What \<open>cursor.execute\<close> does with a statement: it raises \<open>sqlite3.Error\<close> with a
  message, raises another exception, or yields the column names of
  \<open>cursor.description\<close> and the rows of \<open>fetchall()\<close>.
\<close>

datatype exec_outcome =
    Sqlite_Error string
  | Other_Raise exn
  | Rows "string list" "row list"

section \<open>The language-model service\<close>

text \<open>
  Both prompts are fixed templates; a prompt is modelled by the values substituted into
  the template: schema and question for the statement prompt; question, statement,
  results text and column names for the answer prompt.
\<close>

datatype prompt =
    Sql_Prompt string string
  | Answer_Prompt string string string "string list"

datatype response = Response (response_text: string)

section \<open>The world outside the program\<close>

text \<open>
  \<^item> \<open>api_key\<close>: \<open>os.getenv("GOOGLE_API_KEY")\<close>;
  \<^item> \<open>llm n p\<close>: what the \<open>n\<close>-th call of \<open>generate_content\<close> (counted from 0) does with
    prompt \<open>p\<close>: it raises, or returns a response;
  \<^item> \<open>llm_log\<close>: the prompts sent so far, oldest first;
  \<^item> \<open>sleeps\<close>: the arguments of \<open>time.sleep\<close> so far, in seconds, oldest first;
  \<^item> \<open>db_reachable\<close>: whether \<open>sqlite3.connect(DB_PATH)\<close> can open or create the file;
  \<^item> \<open>db_file\<close>: the database at \<open>DB_PATH\<close>, \<open>None\<close> when no file exists there;
  \<^item> \<open>engine\<close>: the SQLite engine on an arbitrary statement;
  \<^item> \<open>connects\<close>: the connections opened so far; \<open>open_conns\<close>: those not yet closed;
  \<^item> \<open>str_row\<close>: Python's \<open>str\<close> on a result tuple.
\<close>

record world =
  api_key :: "string option"
  llm :: "nat \<Rightarrow> prompt \<Rightarrow> exn + response"
  llm_log :: "prompt list"
  sleeps :: "nat list"
  db_reachable :: bool
  db_file :: "database option"
  engine :: "string \<Rightarrow> database \<Rightarrow> exec_outcome \<times> database"
  connects :: nat
  open_conns :: nat
  str_row :: "row \<Rightarrow> string"

text \<open>
  \<open>sqlite3.connect(DB_PATH)\<close>: fails with \<open>OperationalError\<close> when the file cannot
  be opened; otherwise opens a connection, creating an empty database when no file
  exists at the path.
\<close>

definition connect :: "world \<Rightarrow> (exn + unit) \<times> world" where
  "connect w =
     (if \<not> db_reachable w then (Inl (Exn OperationalError ''unable to open database file''), w)
      else (Inr (),
            w\<lparr>db_file := Some (case db_file w of None \<Rightarrow> [] | Some db \<Rightarrow> db),
               connects := connects w + 1,
               open_conns := open_conns w + 1\<rparr>))"

definition close :: "world \<Rightarrow> world" where
  "close w = w\<lparr>open_conns := open_conns w - 1\<rparr>"

definition the_db :: "world \<Rightarrow> database" where
  "the_db w = (case db_file w of None \<Rightarrow> [] | Some db \<Rightarrow> db)"

section \<open>sql_agent.py: execute_sql_query\<close>

text \<open>
  \<open>cursor.execute(sql_query)\<close> with the two reads that follow it: the engine's
  outcome, and whatever the engine did to the database.
\<close>

definition cursor_execute :: "string \<Rightarrow> world \<Rightarrow> exec_outcome \<times> world" where
  "cursor_execute sql w =
     (case engine w sql (the_db w) of (out, db') \<Rightarrow> (out, w\<lparr>db_file := Some db'\<rparr>))"

text \<open>The exception of lines 155 to 158.\<close>

definition not_select_error :: exn where
  "not_select_error =
     Exn ValueError
       ''Only SELECT queries are allowed. The generated query was not a SELECT statement.''"

definition execute_sql_query :: "string \<Rightarrow> world \<Rightarrow> (exn + string list \<times> row list) \<times> world" where
  "execute_sql_query sql_query w =
     (let normalized = upper (strip sql_query) in
      if \<not> startswith normalized ''SELECT'' then (Inl not_select_error, w)
      else
        (case connect w of
           (Inl e, w1) \<Rightarrow> (Inl e, w1)
         | (Inr u, w1) \<Rightarrow>
             (case cursor_execute sql_query w1 of
                (Rows columns rows, w2) \<Rightarrow> (Inr (columns, rows), close w2)
              | (Sqlite_Error m, w2) \<Rightarrow>
                  (Inl (Exn RuntimeError (''SQL execution error: '' @ m)), close w2)
              | (Other_Raise e, w2) \<Rightarrow> (Inl e, close w2))))"

section \<open>sql_agent.py: the language-model client\<close>

text \<open>The exception of lines 33 to 36.\<close>

definition key_error :: exn where
  "key_error =
     Exn ValueError
       (''Please set a valid GOOGLE_API_KEY in your .env file.'' @ [newline] @
        ''Get one at: https://makersuite.google.com/app/apikey'')"

definition configure_gemini :: "world \<Rightarrow> exn + unit" where
  "configure_gemini w =
     (case api_key w of
        None \<Rightarrow> Inl key_error
      | Some k \<Rightarrow> if k = [] \<or> k = ''your_google_api_key_here'' then Inl key_error else Inr ())"

definition get_gemini_model :: "world \<Rightarrow> exn + unit" where
  "get_gemini_model w = configure_gemini w"

text \<open>\<open>model.generate_content(prompt)\<close>: one attempt; the prompt is logged.\<close>

definition generate_content :: "prompt \<Rightarrow> world \<Rightarrow> (exn + response) \<times> world" where
  "generate_content p w = (llm w (length (llm_log w)) p, w\<lparr>llm_log := llm_log w @ [p]\<rparr>)"

definition sleep :: "nat \<Rightarrow> world \<Rightarrow> world" where
  "sleep secs w = w\<lparr>sleeps := sleeps w @ [secs]\<rparr>"

text \<open>The condition of line 54 on the error text.\<close>

definition transient :: "string \<Rightarrow> bool" where
  "transient error_msg =
     (contains ''503'' error_msg \<or> contains ''timeout'' (lower error_msg)
      \<or> contains ''connect'' (lower error_msg))"

text \<open>
  The \<open>for attempt in range(max_retries)\<close> loop from \<open>attempt\<close> on. A loop that ends
  without returning makes the Python function return \<open>None\<close>. The progress line that
  is printed before each sleep is left out.
\<close>

function retry_loop :: "int \<Rightarrow> int \<Rightarrow> prompt \<Rightarrow> world \<Rightarrow> (exn + response option) \<times> world" where
  "retry_loop attempt max_retries p w =
     (if attempt < max_retries then
        (case generate_content p w of
           (Inr response, w1) \<Rightarrow> (Inr (Some response), w1)
         | (Inl e, w1) \<Rightarrow>
             (let error_msg = str_exn e in
              if attempt < max_retries - 1 \<and> transient error_msg
              then (let wait_time = 2 ^ nat (attempt + 1)
                    in retry_loop (attempt + 1) max_retries p (sleep wait_time w1))
              else (Inl e, w1)))
      else (Inr None, w))"
  by pat_completeness auto
termination
  by (relation "measure (\<lambda>(attempt, max_retries, p, w). nat (max_retries - attempt))") auto

declare retry_loop.simps [simp del]

definition call_gemini_with_retry :: "prompt \<Rightarrow> int \<Rightarrow> world \<Rightarrow> (exn + response option) \<times> world" where
  "call_gemini_with_retry p max_retries w = retry_loop 0 max_retries p w"

text \<open>\<open>response.text\<close>, which raises \<open>AttributeError\<close> on \<open>None\<close>.\<close>

definition text_of :: "response option \<Rightarrow> exn + string" where
  "text_of r =
     (case r of
        None \<Rightarrow>
          Inl (Exn AttributeError
                 ([CHR 0x27] @ ''NoneType'' @ [CHR 0x27] @ '' object has no attribute '' @
                  [CHR 0x27] @ ''text'' @ [CHR 0x27]))
      | Some resp \<Rightarrow> Inr (response_text resp))"

section \<open>database_setup.py: get_schema_info\<close>

text \<open>\<open>PRAGMA table_info(t)\<close>: the declared columns of \<open>t\<close>, in declaration order.\<close>

definition table_info :: "database \<Rightarrow> string \<Rightarrow> column list" where
  "table_info db table_name = (case map_of db table_name of None \<Rightarrow> [] | Some t \<Rightarrow> tcols t)"

definition col_detail :: "column \<Rightarrow> string" where
  "col_detail col =
     (let constraints = (if pk col then [''PRIMARY KEY''] else []) @
                        (if notnull col then [''NOT NULL''] else []);
          constraint_str = (if constraints \<noteq> [] then '' ('' @ join '', '' constraints @ '')'' else [])
      in ''    - '' @ cname col @ '' '' @ ctype col @ constraint_str)"

definition get_schema_info :: "world \<Rightarrow> (exn + string) \<times> world" where
  "get_schema_info w =
     (case connect w of
        (Inl e, w1) \<Rightarrow> (Inl e, w1)
      | (Inr u, w1) \<Rightarrow>
          (let tables = sort (map fst (the_db w1));
               schema_info =
                 map (\<lambda>table_name. ''Table: '' @ table_name @ [newline] @
                        join [newline] (map col_detail (table_info (the_db w1) table_name)))
                   tables
           in (Inr (join [newline, newline] schema_info), close w1)))"

section \<open>sql_agent.py: generate_sql_query\<close>

text \<open>Lines 127 to 136: the clean-up of the raw model output.\<close>

definition fence :: string where
  "fence = [CHR 0x60, CHR 0x60, CHR 0x60]"

definition clean_sql :: "string \<Rightarrow> string" where
  "clean_sql raw =
     (let sql_query = strip raw in
      if startswith sql_query fence then
        (let lines = split_nl sql_query
         in strip (join [newline] (filter (\<lambda>line. \<not> startswith (strip line) fence) lines)))
      else sql_query)"

definition generate_sql_query :: "string \<Rightarrow> world \<Rightarrow> (exn + string) \<times> world" where
  "generate_sql_query question w =
     (case get_gemini_model w of
        Inl e \<Rightarrow> (Inl e, w)
      | Inr model \<Rightarrow>
          (case get_schema_info w of
             (Inl e, w1) \<Rightarrow> (Inl e, w1)
           | (Inr schema, w1) \<Rightarrow>
               (case call_gemini_with_retry (Sql_Prompt schema question) 3 w1 of
                  (Inl e, w2) \<Rightarrow> (Inl e, w2)
                | (Inr response, w2) \<Rightarrow>
                    (case text_of response of
                       Inl e \<Rightarrow> (Inl e, w2)
                     | Inr raw \<Rightarrow> (Inr (clean_sql raw), w2)))))"

section \<open>sql_agent.py: generate_natural_answer\<close>

text \<open>Lines 190 to 195: the results text of the answer prompt.\<close>

definition results_str :: "(row \<Rightarrow> string) \<Rightarrow> row list \<Rightarrow> string" where
  "results_str str rows =
     (if rows \<noteq> [] then
        join [newline] (map str (take 50 rows)) @
        (if length rows > 50
         then [newline] @ ''... and '' @ str_nat (length rows - 50) @ '' more rows''
         else [])
      else ''No results found.'')"

definition generate_natural_answer ::
  "string \<Rightarrow> string \<Rightarrow> string list \<Rightarrow> row list \<Rightarrow> world \<Rightarrow> (exn + string) \<times> world" where
  "generate_natural_answer question sql_query columns rows w =
     (case get_gemini_model w of
        Inl e \<Rightarrow> (Inl e, w)
      | Inr model \<Rightarrow>
          (let prompt = Answer_Prompt question sql_query (results_str (str_row w) rows) columns
           in case call_gemini_with_retry prompt 3 w of
                (Inl e, w1) \<Rightarrow> (Inl e, w1)
              | (Inr response, w1) \<Rightarrow>
                  (case text_of response of
                     Inl e \<Rightarrow> (Inl e, w1)
                   | Inr t \<Rightarrow> (Inr (strip t), w1))))"

section \<open>sql_agent.py: ask_question\<close>

text \<open>The values of the result dict, and the dict as a map from its keys.\<close>

datatype pyval = PNone | PStr string | PStrList "string list" | PRows "row list"

type_synonym pydict = "string \<rightharpoonup> pyval"

definition initial_result :: "string \<Rightarrow> pydict" where
  "initial_result question =
     [''question'' \<mapsto> PStr question, ''sql_query'' \<mapsto> PNone, ''columns'' \<mapsto> PNone,
      ''rows'' \<mapsto> PNone, ''answer'' \<mapsto> PNone, ''error'' \<mapsto> PNone]"

definition ask_question :: "string \<Rightarrow> world \<Rightarrow> pydict \<times> world" where
  "ask_question question w =
     (let result = initial_result question in
      case generate_sql_query question w of
        (Inl e, w1) \<Rightarrow> (result(''error'' \<mapsto> PStr (str_exn e)), w1)
      | (Inr sql_query, w1) \<Rightarrow>
          (let result = result(''sql_query'' \<mapsto> PStr sql_query) in
           case execute_sql_query sql_query w1 of
             (Inl e, w2) \<Rightarrow> (result(''error'' \<mapsto> PStr (str_exn e)), w2)
           | (Inr (columns, rows), w2) \<Rightarrow>
               (let result = result(''columns'' \<mapsto> PStrList columns, ''rows'' \<mapsto> PRows rows) in
                case generate_natural_answer question sql_query columns rows w2 of
                  (Inl e, w3) \<Rightarrow> (result(''error'' \<mapsto> PStr (str_exn e)), w3)
                | (Inr answer, w3) \<Rightarrow> (result(''answer'' \<mapsto> PStr answer), w3))))"

section \<open>database_setup.py: create_database\<close>

text \<open>
  The statements the script uses. A table name is looked up as it is written. Foreign
  keys are declared only: SQLite does not enforce them unless asked to. \<open>insert_row\<close>
  checks the number of values, NOT NULL, and PRIMARY KEY and UNIQUE on the values that
  are not NULL.
\<close>

definition drop_table_if_exists :: "string \<Rightarrow> database \<Rightarrow> database" where
  "drop_table_if_exists name db = filter (\<lambda>(n, t). n \<noteq> name) db"

definition create_table :: "string \<Rightarrow> column list \<Rightarrow> database \<Rightarrow> exn + database" where
  "create_table name cols db =
     (if name \<in> set (map fst db)
      then Inl (Exn OperationalError (''table '' @ name @ '' already exists''))
      else Inr (db @ [(name, \<lparr>tcols = cols, trows = []\<rparr>)]))"

definition insert_row :: "table \<Rightarrow> row \<Rightarrow> exn + table" where
  "insert_row t r =
     (if length r \<noteq> length (tcols t) then
        Inl (Exn OperationalError ''table has a different number of columns than values supplied'')
      else if list_ex (\<lambda>(c, v). notnull c \<and> v = SNull) (zip (tcols t) r) then
        Inl (Exn IntegrityError ''NOT NULL constraint failed'')
      else if list_ex (\<lambda>(i, c). (pk c \<or> uniq c) \<and> r ! i \<noteq> SNull \<and>
                          list_ex (\<lambda>r'. r' ! i = r ! i) (trows t))
                (enumerate 0 (tcols t)) then
        Inl (Exn IntegrityError ''UNIQUE constraint failed'')
      else Inr (t\<lparr>trows := trows t @ [r]\<rparr>))"

definition insert_into :: "string \<Rightarrow> row \<Rightarrow> database \<Rightarrow> exn + database" where
  "insert_into name r db =
     (case map_of db name of
        None \<Rightarrow> Inl (Exn OperationalError (''no such table: '' @ name))
      | Some t \<Rightarrow>
          (case insert_row t r of
             Inl e \<Rightarrow> Inl e
           | Inr t' \<Rightarrow> Inr (map (\<lambda>(n, x). if n = name then (n, t') else (n, x)) db)))"

text \<open>\<open>cursor.executemany\<close> of an INSERT: the rows in order, up to the first failure.\<close>

fun executemany :: "string \<Rightarrow> row list \<Rightarrow> database \<Rightarrow> exn + database" where
  "executemany name [] db = Inr db"
| "executemany name (r # rs) db =
     (case insert_into name r db of Inl e \<Rightarrow> Inl e | Inr db' \<Rightarrow> executemany name rs db')"

definition bind :: "exn + 'a \<Rightarrow> ('a \<Rightarrow> exn + 'b) \<Rightarrow> exn + 'b" where
  "bind m f = (case m of Inl e \<Rightarrow> Inl e | Inr x \<Rightarrow> f x)"

definition departments_columns :: "column list" where
  "departments_columns =
     [\<lparr>cname = ''department_id'', ctype = ''INTEGER'', notnull = False, pk = True, uniq = False\<rparr>,
      \<lparr>cname = ''department_name'', ctype = ''TEXT'', notnull = True, pk = False, uniq = False\<rparr>,
      \<lparr>cname = ''location'', ctype = ''TEXT'', notnull = True, pk = False, uniq = False\<rparr>]"

definition employees_columns :: "column list" where
  "employees_columns =
     [\<lparr>cname = ''employee_id'', ctype = ''INTEGER'', notnull = False, pk = True, uniq = False\<rparr>,
      \<lparr>cname = ''first_name'', ctype = ''TEXT'', notnull = True, pk = False, uniq = False\<rparr>,
      \<lparr>cname = ''last_name'', ctype = ''TEXT'', notnull = True, pk = False, uniq = False\<rparr>,
      \<lparr>cname = ''email'', ctype = ''TEXT'', notnull = True, pk = False, uniq = True\<rparr>,
      \<lparr>cname = ''hire_date'', ctype = ''DATE'', notnull = True, pk = False, uniq = False\<rparr>,
      \<lparr>cname = ''department_id'', ctype = ''INTEGER'', notnull = False, pk = False, uniq = False\<rparr>,
      \<lparr>cname = ''job_title'', ctype = ''TEXT'', notnull = True, pk = False, uniq = False\<rparr>]"

definition projects_columns :: "column list" where
  "projects_columns =
     [\<lparr>cname = ''project_id'', ctype = ''INTEGER'', notnull = False, pk = True, uniq = False\<rparr>,
      \<lparr>cname = ''project_name'', ctype = ''TEXT'', notnull = True, pk = False, uniq = False\<rparr>,
      \<lparr>cname = ''start_date'', ctype = ''DATE'', notnull = True, pk = False, uniq = False\<rparr>,
      \<lparr>cname = ''end_date'', ctype = ''DATE'', notnull = False, pk = False, uniq = False\<rparr>,
      \<lparr>cname = ''budget'', ctype = ''REAL'', notnull = True, pk = False, uniq = False\<rparr>,
      \<lparr>cname = ''status'', ctype = ''TEXT'', notnull = True, pk = False, uniq = False\<rparr>]"

definition salaries_columns :: "column list" where
  "salaries_columns =
     [\<lparr>cname = ''salary_id'', ctype = ''INTEGER'', notnull = False, pk = True, uniq = False\<rparr>,
      \<lparr>cname = ''employee_id'', ctype = ''INTEGER'', notnull = True, pk = False, uniq = False\<rparr>,
      \<lparr>cname = ''salary_amount'', ctype = ''REAL'', notnull = True, pk = False, uniq = False\<rparr>,
      \<lparr>cname = ''effective_date'', ctype = ''DATE'', notnull = True, pk = False, uniq = False\<rparr>]"

definition project_assignments_columns :: "column list" where
  "project_assignments_columns =
     [\<lparr>cname = ''assignment_id'', ctype = ''INTEGER'', notnull = False, pk = True, uniq = False\<rparr>,
      \<lparr>cname = ''employee_id'', ctype = ''INTEGER'', notnull = True, pk = False, uniq = False\<rparr>,
      \<lparr>cname = ''project_id'', ctype = ''INTEGER'', notnull = True, pk = False, uniq = False\<rparr>,
      \<lparr>cname = ''role'', ctype = ''TEXT'', notnull = True, pk = False, uniq = False\<rparr>,
      \<lparr>cname = ''assigned_date'', ctype = ''DATE'', notnull = True, pk = False, uniq = False\<rparr>]"

definition departments :: "row list" where
  "departments =
     [[SInt 1, SText ''Engineering'', SText ''Building A, Floor 3''],
      [SInt 2, SText ''Marketing'', SText ''Building B, Floor 1''],
      [SInt 3, SText ''Human Resources'', SText ''Building A, Floor 1''],
      [SInt 4, SText ''Finance'', SText ''Building C, Floor 2''],
      [SInt 5, SText ''Data Science'', SText ''Building A, Floor 4'']]"

definition employees :: "row list" where
  "employees =
     [[SInt 1, SText ''Aarav'', SText ''Sharma'', SText ''aarav.sharma@company.com'', SText ''2021-03-15'', SInt 1, SText ''Software Engineer''],
      [SInt 2, SText ''Priya'', SText ''Patel'', SText ''priya.patel@company.com'', SText ''2020-07-20'', SInt 1, SText ''Senior Software Engineer''],
      [SInt 3, SText ''Rahul'', SText ''Gupta'', SText ''rahul.gupta@company.com'', SText ''2022-01-10'', SInt 2, SText ''Marketing Analyst''],
      [SInt 4, SText ''Sneha'', SText ''Reddy'', SText ''sneha.reddy@company.com'', SText ''2019-11-05'', SInt 3, SText ''HR Manager''],
      [SInt 5, SText ''Vikram'', SText ''Singh'', SText ''vikram.singh@company.com'', SText ''2023-02-28'', SInt 1, SText ''Junior Developer''],
      [SInt 6, SText ''Ananya'', SText ''Iyer'', SText ''ananya.iyer@company.com'', SText ''2020-09-14'', SInt 4, SText ''Financial Analyst''],
      [SInt 7, SText ''Rohan'', SText ''Mehta'', SText ''rohan.mehta@company.com'', SText ''2021-06-01'', SInt 5, SText ''Data Scientist''],
      [SInt 8, SText ''Kavya'', SText ''Nair'', SText ''kavya.nair@company.com'', SText ''2022-08-22'', SInt 5, SText ''ML Engineer''],
      [SInt 9, SText ''Arjun'', SText ''Kumar'', SText ''arjun.kumar@company.com'', SText ''2018-04-12'', SInt 1, SText ''Tech Lead''],
      [SInt 10, SText ''Divya'', SText ''Joshi'', SText ''divya.joshi@company.com'', SText ''2023-05-17'', SInt 2, SText ''Content Strategist''],
      [SInt 11, SText ''Manish'', SText ''Verma'', SText ''manish.verma@company.com'', SText ''2021-11-30'', SInt 4, SText ''Accountant''],
      [SInt 12, SText ''Pooja'', SText ''Agarwal'', SText ''pooja.agarwal@company.com'', SText ''2020-02-14'', SInt 3, SText ''Recruiter''],
      [SInt 13, SText ''Siddharth'', SText ''Rao'', SText ''siddharth.rao@company.com'', SText ''2019-08-25'', SInt 1, SText ''DevOps Engineer''],
      [SInt 14, SText ''Neha'', SText ''Desai'', SText ''neha.desai@company.com'', SText ''2022-12-01'', SInt 5, SText ''Data Analyst''],
      [SInt 15, SText ''Amit'', SText ''Choudhary'', SText ''amit.choudhary@company.com'', SText ''2023-09-10'', SInt 2, SText ''Marketing Manager'']]"

definition projects :: "row list" where
  "projects =
     [[SInt 1, SText ''Cloud Migration'', SText ''2024-01-15'', SText ''2024-12-31'', SReal 500000, SText ''Active''],
      [SInt 2, SText ''Customer Analytics'', SText ''2023-06-01'', SText ''2024-06-30'', SReal 250000, SText ''Active''],
      [SInt 3, SText ''Mobile App Redesign'', SText ''2023-09-01'', SText ''2024-03-31'', SReal 180000, SText ''Completed''],
      [SInt 4, SText ''AI Chatbot'', SText ''2024-03-01'', SNull, SReal 350000, SText ''Active''],
      [SInt 5, SText ''ERP System Upgrade'', SText ''2022-01-01'', SText ''2023-12-31'', SReal 750000, SText ''Completed'']]"

definition salaries :: "row list" where
  "salaries =
     [[SInt 1, SInt 1, SReal 85000, SText ''2024-01-01''],
      [SInt 2, SInt 2, SReal 120000, SText ''2024-01-01''],
      [SInt 3, SInt 3, SReal 65000, SText ''2024-01-01''],
      [SInt 4, SInt 4, SReal 95000, SText ''2024-01-01''],
      [SInt 5, SInt 5, SReal 55000, SText ''2024-01-01''],
      [SInt 6, SInt 6, SReal 78000, SText ''2024-01-01''],
      [SInt 7, SInt 7, SReal 110000, SText ''2024-01-01''],
      [SInt 8, SInt 8, SReal 105000, SText ''2024-01-01''],
      [SInt 9, SInt 9, SReal 140000, SText ''2024-01-01''],
      [SInt 10, SInt 10, SReal 60000, SText ''2024-01-01''],
      [SInt 11, SInt 11, SReal 72000, SText ''2024-01-01''],
      [SInt 12, SInt 12, SReal 68000, SText ''2024-01-01''],
      [SInt 13, SInt 13, SReal 115000, SText ''2024-01-01''],
      [SInt 14, SInt 14, SReal 75000, SText ''2024-01-01''],
      [SInt 15, SInt 15, SReal 90000, SText ''2024-01-01'']]"

definition assignments :: "row list" where
  "assignments =
     [[SInt 1, SInt 1, SInt 1, SText ''Backend Developer'', SText ''2024-01-20''],
      [SInt 2, SInt 2, SInt 1, SText ''Lead Developer'', SText ''2024-01-20''],
      [SInt 3, SInt 9, SInt 1, SText ''Project Manager'', SText ''2024-01-15''],
      [SInt 4, SInt 13, SInt 1, SText ''DevOps Lead'', SText ''2024-02-01''],
      [SInt 5, SInt 7, SInt 2, SText ''Lead Data Scientist'', SText ''2023-06-01''],
      [SInt 6, SInt 8, SInt 2, SText ''ML Engineer'', SText ''2023-06-15''],
      [SInt 7, SInt 14, SInt 2, SText ''Data Analyst'', SText ''2023-07-01''],
      [SInt 8, SInt 5, SInt 3, SText ''Frontend Developer'', SText ''2023-09-01''],
      [SInt 9, SInt 1, SInt 4, SText ''AI Developer'', SText ''2024-03-01''],
      [SInt 10, SInt 8, SInt 4, SText ''ML Engineer'', SText ''2024-03-15''],
      [SInt 11, SInt 7, SInt 4, SText ''Data Scientist'', SText ''2024-04-01'']]"

text \<open>The two scripts and the five \<open>executemany\<close> calls, on the database of the connection.\<close>

definition drop_existing_tables :: "database \<Rightarrow> database" where
  "drop_existing_tables db =
     drop_table_if_exists ''departments''
       (drop_table_if_exists ''employees''
         (drop_table_if_exists ''projects''
           (drop_table_if_exists ''project_assignments''
             (drop_table_if_exists ''salaries'' db))))"

definition create_tables :: "database \<Rightarrow> exn + database" where
  "create_tables db =
     bind (create_table ''departments'' departments_columns db) (\<lambda>db.
     bind (create_table ''employees'' employees_columns db) (\<lambda>db.
     bind (create_table ''projects'' projects_columns db) (\<lambda>db.
     bind (create_table ''salaries'' salaries_columns db) (\<lambda>db.
     create_table ''project_assignments'' project_assignments_columns db))))"

definition insert_sample_data :: "database \<Rightarrow> exn + database" where
  "insert_sample_data db =
     bind (executemany ''departments'' departments db) (\<lambda>db.
     bind (executemany ''employees'' employees db) (\<lambda>db.
     bind (executemany ''projects'' projects db) (\<lambda>db.
     bind (executemany ''salaries'' salaries db) (\<lambda>db.
     executemany ''project_assignments'' assignments db))))"

text \<open>
  An exception of the engine leaves \<open>create_database\<close> before \<open>conn.close()\<close>: the
  connection stays open, and the database is the one reached so far.
\<close>

definition create_database :: "world \<Rightarrow> (exn + unit) \<times> world" where
  "create_database w =
     (case connect w of
        (Inl e, w1) \<Rightarrow> (Inl e, w1)
      | (Inr u, w1) \<Rightarrow>
          (let db0 = drop_existing_tables (the_db w1) in
           case create_tables db0 of
             Inl e \<Rightarrow> (Inl e, w1\<lparr>db_file := Some db0\<rparr>)
           | Inr db1 \<Rightarrow>
               (case insert_sample_data db1 of
                  Inl e \<Rightarrow> (Inl e, w1\<lparr>db_file := Some db1\<rparr>)
                | Inr db2 \<Rightarrow> (Inr (), close (w1\<lparr>db_file := Some db2\<rparr>)))))"

section \<open>app.py: initialize_database\<close>

text \<open>\<open>os.path.exists(DB_PATH)\<close>.\<close>

definition path_exists :: "world \<Rightarrow> bool" where
  "path_exists w = (db_file w \<noteq> None)"

definition initialize_database :: "world \<Rightarrow> (exn + unit) \<times> world" where
  "initialize_database w =
     (if \<not> path_exists w then create_database w else (Inr (), w))"

text \<open>\<open>SELECT COUNT(*) FROM t\<close>, and the table names of the database.\<close>

definition row_count :: "database \<Rightarrow> string \<Rightarrow> nat option" where
  "row_count db name = (case map_of db name of None \<Rightarrow> None | Some t \<Rightarrow> Some (length (trows t)))"

definition table_names :: "database \<Rightarrow> string list" where
  "table_names db = map fst db"

section \<open>Example worlds\<close>

text \<open>
  A world with the given key, language-model behaviour and database file, in which
  nothing has happened yet; its engine answers every statement with one row.
\<close>

definition example_world :: "string option \<Rightarrow> (nat \<Rightarrow> prompt \<Rightarrow> exn + response) \<Rightarrow> database option \<Rightarrow> world" where
  "example_world key oracle file =
     \<lparr>api_key = key, llm = oracle, llm_log = [], sleeps = [], db_reachable = True, db_file = file,
      engine = (\<lambda>sql db. (Rows [''1''] [[SInt 1]], db)), connects = 0, open_conns = 0,
      str_row = (\<lambda>r. ''(1,)'')\<rparr>"

section \<open>The seeded store, and the fenced block of the specification\<close>

text \<open>The five tables as the CREATE TABLE script leaves them, and with the sample rows.\<close>

definition seed_names :: "string list" where
  "seed_names = [''departments'', ''employees'', ''projects'', ''salaries'', ''project_assignments'']"

definition empty_tables :: database where
  "empty_tables =
     [(''departments'', \<lparr>tcols = departments_columns, trows = []\<rparr>),
      (''employees'', \<lparr>tcols = employees_columns, trows = []\<rparr>),
      (''projects'', \<lparr>tcols = projects_columns, trows = []\<rparr>),
      (''salaries'', \<lparr>tcols = salaries_columns, trows = []\<rparr>),
      (''project_assignments'', \<lparr>tcols = project_assignments_columns, trows = []\<rparr>)]"

definition seeded_database :: database where
  "seeded_database =
     [(''departments'', \<lparr>tcols = departments_columns, trows = departments\<rparr>),
      (''employees'', \<lparr>tcols = employees_columns, trows = employees\<rparr>),
      (''projects'', \<lparr>tcols = projects_columns, trows = projects\<rparr>),
      (''salaries'', \<lparr>tcols = salaries_columns, trows = salaries\<rparr>),
      (''project_assignments'', \<lparr>tcols = project_assignments_columns, trows = assignments\<rparr>)]"

text \<open>
  The specification's "wrapped in a fenced code block", in its own words: the trimmed
  output opens with a fence, and its last line, of at least two, is a fence line.
\<close>

definition wrapped_in_fence :: "string \<Rightarrow> bool" where
  "wrapped_in_fence raw =
     (let s = strip raw
      in startswith s fence \<and> 2 \<le> length (split_nl s) \<and>
         startswith (strip (last (split_nl s))) fence)"

text \<open>
  No line of \<open>t\<close> is a fence line, the first line being read after the text \<open>p\<close>.
\<close>

definition fence_free :: "string \<Rightarrow> string \<Rightarrow> bool" where
  "fence_free p t =
     (\<not> startswith (strip (p @ hd (split_nl t))) fence \<and>
      list_all (\<lambda>l. \<not> startswith (strip l) fence) (tl (split_nl t)))"

section \<open>More example worlds\<close>

text \<open>
  No key is set; the model answers with a DROP statement; the model answers the first
  call with a SELECT and fails every later call with an error that is not transient;
  the model fails two calls with transient errors and answers from the third on; the
  model fails every call with a 503 error.
\<close>

definition world_without_key :: world where
  "world_without_key = example_world None (\<lambda>n p. Inr (Response [])) None"

definition world_drop :: world where
  "world_drop =
     example_world (Some ''key'') (\<lambda>n p. Inr (Response ''DROP TABLE employees;'')) (Some [])"

definition world_quota :: world where
  "world_quota =
     example_world (Some ''key'')
       (\<lambda>n p. if n = 0 then Inr (Response ''SELECT 1;'')
              else Inl (Exn OtherError ''quota exceeded''))
       (Some [])"

definition world_flaky :: world where
  "world_flaky =
     example_world (Some ''key'')
       (\<lambda>n p. if n = 0 then Inl (Exn OtherError ''503 Service Unavailable'')
              else if n = 1 then Inl (Exn OtherError ''Connection reset by peer'')
              else Inr (Response ''SELECT 1;''))
       None"

definition world_503 :: world where
  "world_503 =
     example_world (Some ''key'') (\<lambda>n p. Inl (Exn OtherError ''503 Service Unavailable'')) None"

section \<open>Properties\<close>

subsection \<open>The bounded retry of the language-model call\<close>

lemma retry_three_unrolled:
  "call_gemini_with_retry p 3 w =
     (let n = length (llm_log w) in
      case llm w n p of
        Inr r \<Rightarrow> (Inr (Some r), w\<lparr>llm_log := llm_log w @ [p]\<rparr>)
      | Inl e0 \<Rightarrow>
          if transient (str_exn e0) then
            (case llm w (n + 1) p of
               Inr r \<Rightarrow> (Inr (Some r), w\<lparr>llm_log := llm_log w @ [p, p], sleeps := sleeps w @ [2]\<rparr>)
             | Inl e1 \<Rightarrow>
                 if transient (str_exn e1) then
                   (case llm w (n + 2) p of
                      Inr r \<Rightarrow>
                        (Inr (Some r),
                         w\<lparr>llm_log := llm_log w @ [p, p, p], sleeps := sleeps w @ [2, 4]\<rparr>)
                    | Inl e2 \<Rightarrow>
                        (Inl e2, w\<lparr>llm_log := llm_log w @ [p, p, p], sleeps := sleeps w @ [2, 4]\<rparr>))
                 else (Inl e1, w\<lparr>llm_log := llm_log w @ [p, p], sleeps := sleeps w @ [2]\<rparr>))
          else (Inl e0, w\<lparr>llm_log := llm_log w @ [p]\<rparr>))"
  unfolding call_gemini_with_retry_def
  apply (subst retry_loop.simps)
  apply (subst retry_loop.simps)
  apply (subst retry_loop.simps)
  apply (simp add: generate_content_def sleep_def Let_def split: sum.splits)
  done

text \<open>
  C3, as amended. With the three attempts of \<open>max_retries = 3\<close>, a failed attempt
  whose text matches a transient pattern is retried after a sleep of 2 seconds (after
  the first attempt) or 4 seconds (after the second); a failure that matches no pattern,
  and any failure of the third attempt, is raised at once with no further sleep; a
  success is returned at once. So one to three attempts are made with the same prompt,
  the sleeps are a prefix of 2, 4, and an 8 second sleep never happens. When the first
  two attempts fail with transient errors and the third succeeds, the third response is
  returned after sleeps of 2 and 4 seconds.
\<close>

theorem call_gemini_with_retry_three_attempts:
  "call_gemini_with_retry p 3 w =
     (let n = length (llm_log w) in
      case llm w n p of
        Inr r \<Rightarrow> (Inr (Some r), w\<lparr>llm_log := llm_log w @ [p]\<rparr>)
      | Inl e0 \<Rightarrow>
          if transient (str_exn e0) then
            (case llm w (n + 1) p of
               Inr r \<Rightarrow> (Inr (Some r), w\<lparr>llm_log := llm_log w @ [p, p], sleeps := sleeps w @ [2]\<rparr>)
             | Inl e1 \<Rightarrow>
                 if transient (str_exn e1) then
                   (case llm w (n + 2) p of
                      Inr r \<Rightarrow>
                        (Inr (Some r),
                         w\<lparr>llm_log := llm_log w @ [p, p, p], sleeps := sleeps w @ [2, 4]\<rparr>)
                    | Inl e2 \<Rightarrow>
                        (Inl e2, w\<lparr>llm_log := llm_log w @ [p, p, p], sleeps := sleeps w @ [2, 4]\<rparr>))
                 else (Inl e1, w\<lparr>llm_log := llm_log w @ [p, p], sleeps := sleeps w @ [2]\<rparr>))
          else (Inl e0, w\<lparr>llm_log := llm_log w @ [p]\<rparr>)) \<and>
   (\<exists>k. 1 \<le> k \<and> k \<le> 3 \<and>
        llm_log (snd (call_gemini_with_retry p 3 w)) = llm_log w @ replicate k p \<and>
        sleeps (snd (call_gemini_with_retry p 3 w)) = sleeps w @ take (k - 1) [2, 4])"
proof -
  have attempts: "\<exists>k. 1 \<le> k \<and> k \<le> 3 \<and>
        llm_log (snd (call_gemini_with_retry p 3 w)) = llm_log w @ replicate k p \<and>
        sleeps (snd (call_gemini_with_retry p 3 w)) = sleeps w @ take (k - 1) [2, 4]"
  proof (cases "llm w (length (llm_log w)) p")
    case (Inr r)
    then have "llm_log (snd (call_gemini_with_retry p 3 w)) = llm_log w @ replicate 1 p \<and>
        sleeps (snd (call_gemini_with_retry p 3 w)) = sleeps w @ take (1 - 1) [2, 4]"
      by (simp add: retry_three_unrolled)
    then show ?thesis by (intro exI [of _ 1]) simp
  next
    case e0: (Inl e0)
    show ?thesis
    proof (cases "transient (str_exn e0)")
      case False
      with e0 have "llm_log (snd (call_gemini_with_retry p 3 w)) = llm_log w @ replicate 1 p \<and>
          sleeps (snd (call_gemini_with_retry p 3 w)) = sleeps w @ take (1 - 1) [2, 4]"
        by (simp add: retry_three_unrolled)
      then show ?thesis by (intro exI [of _ 1]) simp
    next
      case t0: True
      show ?thesis
      proof (cases "llm w (length (llm_log w) + 1) p")
        case (Inr r)
        with e0 t0 have "llm_log (snd (call_gemini_with_retry p 3 w)) = llm_log w @ replicate 2 p \<and>
            sleeps (snd (call_gemini_with_retry p 3 w)) = sleeps w @ take (2 - 1) [2, 4]"
          by (simp add: retry_three_unrolled numeral_2_eq_2)
        then show ?thesis by (intro exI [of _ 2]) simp
      next
        case e1: (Inl e1)
        show ?thesis
        proof (cases "transient (str_exn e1)")
          case False
          with e0 t0 e1 have "llm_log (snd (call_gemini_with_retry p 3 w)) = llm_log w @ replicate 2 p \<and>
              sleeps (snd (call_gemini_with_retry p 3 w)) = sleeps w @ take (2 - 1) [2, 4]"
            by (simp add: retry_three_unrolled numeral_2_eq_2)
          then show ?thesis by (intro exI [of _ 2]) simp
        next
          case t1: True
          with e0 t0 e1 have "llm_log (snd (call_gemini_with_retry p 3 w)) = llm_log w @ replicate 3 p \<and>
              sleeps (snd (call_gemini_with_retry p 3 w)) = sleeps w @ take (3 - 1) [2, 4]"
            by (simp add: retry_three_unrolled numeral_3_eq_3 split: sum.splits)
          then show ?thesis by (intro exI [of _ 3]) simp
        qed
      qed
    qed
  qed
  show ?thesis
    using attempts retry_three_unrolled [of p w] by blast
qed

text \<open>Two transient failures, then a response: it is returned after sleeps of 2 and 4.\<close>

theorem call_gemini_with_retry_three_attempts_witness:
  "call_gemini_with_retry (Sql_Prompt [] ''q'') 3 world_flaky =
     (Inr (Some (Response ''SELECT 1;'')),
      world_flaky\<lparr>llm_log := [Sql_Prompt [] ''q'', Sql_Prompt [] ''q'', Sql_Prompt [] ''q''],
                  sleeps := [2, 4]\<rparr>)"
proof -
  have t: "transient ''503 Service Unavailable''" "transient ''Connection reset by peer''"
    by code_simp+
  have l: "llm_log world_flaky = []" "sleeps world_flaky = []"
    "llm world_flaky =
       (\<lambda>n p. if n = 0 then Inl (Exn OtherError ''503 Service Unavailable'')
              else if n = 1 then Inl (Exn OtherError ''Connection reset by peer'')
              else Inr (Response ''SELECT 1;''))"
    by (simp_all add: world_flaky_def example_world_def)
  show ?thesis
    using call_gemini_with_retry_three_attempts [of "Sql_Prompt [] ''q''" world_flaky, THEN conjunct1]
    by (simp add: Let_def t l str_exn_def)
qed

text \<open>
  C3 as stated has sleeps of 2, 4 and 8 seconds between at most three attempts. When
  every attempt fails with a 503 error, three attempts are made, the sleeps are 2 and 4
  seconds, and the third error is raised: there is no third sleep.
\<close>

theorem retry_8s_counterexample:
  "fst (call_gemini_with_retry (Sql_Prompt [] ''q'') 3 world_503) =
     Inl (Exn OtherError ''503 Service Unavailable'') \<and>
   sleeps (snd (call_gemini_with_retry (Sql_Prompt [] ''q'') 3 world_503)) = [2, 4] \<and>
   length (llm_log (snd (call_gemini_with_retry (Sql_Prompt [] ''q'') 3 world_503))) = 3"
  by (simp add: retry_three_unrolled world_503_def example_world_def transient_def str_exn_def
      startswith_def)

subsection \<open>The safety gate of the executor\<close>

text \<open>
  C1. A statement whose trimmed, uppercased form does not begin with SELECT makes
  \<open>execute_sql_query\<close> raise the ValueError of the safety check, and the world is
  left as it was: no connection has been opened and the database file is unchanged.
\<close>

theorem execute_sql_query_rejects_non_select:
  assumes "\<not> startswith (upper (strip s)) ''SELECT''"
  shows "execute_sql_query s w = (Inl not_select_error, w) \<and>
         kind not_select_error = ValueError \<and>
         connects (snd (execute_sql_query s w)) = connects w \<and>
         db_file (snd (execute_sql_query s w)) = db_file w"
  using assms by (simp add: execute_sql_query_def not_select_error_def)

text \<open>A DROP statement followed by a SELECT, with leading blanks, is rejected.\<close>

theorem execute_sql_query_rejects_non_select_witness:
  "\<not> startswith (upper (strip ''  drop table employees; select 1'')) ''SELECT'' \<and>
   execute_sql_query ''  drop table employees; select 1'' world_drop =
     (Inl (Exn ValueError
        ''Only SELECT queries are allowed. The generated query was not a SELECT statement.''),
      world_drop) \<and>
   connects (snd (execute_sql_query ''  drop table employees; select 1'' world_drop)) = 0 \<and>
   db_file (snd (execute_sql_query ''  drop table employees; select 1'' world_drop)) = Some []"
proof -
  have h: "\<not> startswith (upper (strip ''  drop table employees; select 1'')) ''SELECT''"
    by code_simp
  show ?thesis
    using h execute_sql_query_rejects_non_select [OF h, of world_drop]
    by (simp add: not_select_error_def world_drop_def example_world_def)
qed

subsection \<open>The orchestrator\<close>

lemma ask_question_cases:
  "ask_question q w =
     (case generate_sql_query q w of
        (Inl e, w1) \<Rightarrow> ((initial_result q)(''error'' \<mapsto> PStr (str_exn e)), w1)
      | (Inr sql, w1) \<Rightarrow>
          (case execute_sql_query sql w1 of
             (Inl e, w2) \<Rightarrow>
               ((initial_result q)(''sql_query'' \<mapsto> PStr sql, ''error'' \<mapsto> PStr (str_exn e)), w2)
           | (Inr (cols, rows), w2) \<Rightarrow>
               (case generate_natural_answer q sql cols rows w2 of
                  (Inl e, w3) \<Rightarrow>
                    ((initial_result q)(''sql_query'' \<mapsto> PStr sql, ''columns'' \<mapsto> PStrList cols,
                       ''rows'' \<mapsto> PRows rows, ''error'' \<mapsto> PStr (str_exn e)), w3)
                | (Inr answer, w3) \<Rightarrow>
                    ((initial_result q)(''sql_query'' \<mapsto> PStr sql, ''columns'' \<mapsto> PStrList cols,
                       ''rows'' \<mapsto> PRows rows, ''answer'' \<mapsto> PStr answer), w3))))"
  by (simp add: ask_question_def Let_def split: prod.splits sum.splits)

text \<open>
  C2. In the record returned by \<open>ask_question\<close>, the answer field or the error field
  is null: the two are never both set.
\<close>

theorem ask_question_answer_error_exclusive:
  "fst (ask_question q w) ''answer'' = Some PNone \<or> fst (ask_question q w) ''error'' = Some PNone"
  by (simp add: ask_question_cases initial_result_def split: prod.splits sum.splits)

text \<open>
  C4. \<open>ask_question\<close> always returns its record. When the translation fails, the
  record has the failure's message in error and null in sql_query, columns, rows and
  answer. When the translation yields a statement and the execution fails, sql_query
  keeps the statement, error has the message, and columns, rows and answer are null.
  When the synthesis fails, sql_query, columns and rows keep their values, error has the
  message and answer is null.
\<close>

theorem ask_question_stage_failure:
  "(generate_sql_query q w = (Inl e, w1) \<longrightarrow>
      ask_question q w =
        ([''question'' \<mapsto> PStr q, ''sql_query'' \<mapsto> PNone, ''columns'' \<mapsto> PNone,
          ''rows'' \<mapsto> PNone, ''answer'' \<mapsto> PNone, ''error'' \<mapsto> PStr (str_exn e)], w1)) \<and>
   (generate_sql_query q w = (Inr sql, w1) \<and> execute_sql_query sql w1 = (Inl e, w2) \<longrightarrow>
      ask_question q w =
        ([''question'' \<mapsto> PStr q, ''sql_query'' \<mapsto> PStr sql, ''columns'' \<mapsto> PNone,
          ''rows'' \<mapsto> PNone, ''answer'' \<mapsto> PNone, ''error'' \<mapsto> PStr (str_exn e)], w2)) \<and>
   (generate_sql_query q w = (Inr sql, w1) \<and> execute_sql_query sql w1 = (Inr (cols, rows), w2) \<and>
    generate_natural_answer q sql cols rows w2 = (Inl e, w3) \<longrightarrow>
      ask_question q w =
        ([''question'' \<mapsto> PStr q, ''sql_query'' \<mapsto> PStr sql, ''columns'' \<mapsto> PStrList cols,
          ''rows'' \<mapsto> PRows rows, ''answer'' \<mapsto> PNone, ''error'' \<mapsto> PStr (str_exn e)], w3))"
  by (auto simp: ask_question_cases initial_result_def fun_upd_def fun_eq_iff)

text \<open>
  The three failures at work: no key is set; the model answers with a DROP statement;
  the model fails the second call with an error that is not transient.
\<close>

lemma generate_sql_query_without_key:
  "generate_sql_query q world_without_key = (Inl key_error, world_without_key)"
  by (simp add: generate_sql_query_def get_gemini_model_def configure_gemini_def
      world_without_key_def example_world_def)

lemma clean_sql_drop: "clean_sql ''DROP TABLE employees;'' = ''DROP TABLE employees;''"
  by code_simp

lemma clean_sql_select: "clean_sql ''SELECT 1;'' = ''SELECT 1;''"
  by code_simp

lemma gate_drop: "\<not> startswith (upper (strip ''DROP TABLE employees;'')) ''SELECT''"
  by code_simp

lemma gate_select: "startswith (upper (strip ''SELECT 1;'')) ''SELECT''"
  by code_simp

lemma not_transient_quota: "\<not> transient ''quota exceeded''"
  by code_simp

lemma generate_sql_query_drop:
  "fst (generate_sql_query q world_drop) = Inr ''DROP TABLE employees;''"
  by (simp add: generate_sql_query_def get_gemini_model_def configure_gemini_def
      world_drop_def example_world_def get_schema_info_def connect_def the_db_def close_def
      retry_three_unrolled text_of_def clean_sql_drop)

lemma generate_sql_query_quota:
  "generate_sql_query q world_quota =
     (Inr ''SELECT 1;'', world_quota\<lparr>llm_log := [Sql_Prompt [] q], connects := 1\<rparr>)"
  by (simp add: generate_sql_query_def get_gemini_model_def configure_gemini_def
      world_quota_def example_world_def get_schema_info_def connect_def the_db_def close_def
      retry_three_unrolled text_of_def clean_sql_select)

lemma execute_sql_query_quota:
  "execute_sql_query ''SELECT 1;'' (world_quota\<lparr>llm_log := [Sql_Prompt [] q], connects := 1\<rparr>) =
     (Inr ([''1''], [[SInt 1]]), world_quota\<lparr>llm_log := [Sql_Prompt [] q], connects := 2\<rparr>)"
  by (simp add: execute_sql_query_def gate_select connect_def cursor_execute_def the_db_def
      close_def world_quota_def example_world_def)

lemma generate_natural_answer_quota:
  "fst (generate_natural_answer q ''SELECT 1;'' [''1''] [[SInt 1]]
          (world_quota\<lparr>llm_log := [Sql_Prompt [] q], connects := 2\<rparr>)) =
     Inl (Exn OtherError ''quota exceeded'')"
  by (simp add: generate_natural_answer_def get_gemini_model_def configure_gemini_def
      world_quota_def example_world_def retry_three_unrolled str_exn_def not_transient_quota)

theorem ask_question_stage_failure_witness:
  "fst (ask_question ''How many employees?'' world_without_key) =
     [''question'' \<mapsto> PStr ''How many employees?'', ''sql_query'' \<mapsto> PNone, ''columns'' \<mapsto> PNone,
      ''rows'' \<mapsto> PNone, ''answer'' \<mapsto> PNone, ''error'' \<mapsto> PStr (str_exn key_error)] \<and>
   fst (ask_question ''Remove the employees'' world_drop) =
     [''question'' \<mapsto> PStr ''Remove the employees'', ''sql_query'' \<mapsto> PStr ''DROP TABLE employees;'',
      ''columns'' \<mapsto> PNone, ''rows'' \<mapsto> PNone, ''answer'' \<mapsto> PNone,
      ''error'' \<mapsto> PStr ''Only SELECT queries are allowed. The generated query was not a SELECT statement.''] \<and>
   fst (ask_question ''One?'' world_quota) =
     [''question'' \<mapsto> PStr ''One?'', ''sql_query'' \<mapsto> PStr ''SELECT 1;'',
      ''columns'' \<mapsto> PStrList [''1''], ''rows'' \<mapsto> PRows [[SInt 1]], ''answer'' \<mapsto> PNone,
      ''error'' \<mapsto> PStr ''quota exceeded'']"
proof -
  let ?wd = "snd (generate_sql_query ''Remove the employees'' world_drop)"
  let ?wq1 = "world_quota\<lparr>llm_log := [Sql_Prompt [] ''One?''], connects := 1\<rparr>"
  let ?wq2 = "world_quota\<lparr>llm_log := [Sql_Prompt [] ''One?''], connects := 2\<rparr>"
  let ?wq3 = "snd (generate_natural_answer ''One?'' ''SELECT 1;'' [''1''] [[SInt 1]] ?wq2)"
  have a: "generate_sql_query ''How many employees?'' world_without_key = (Inl key_error, world_without_key)"
    by (rule generate_sql_query_without_key)
  have b1: "generate_sql_query ''Remove the employees'' world_drop = (Inr ''DROP TABLE employees;'', ?wd)"
    using generate_sql_query_drop [of "''Remove the employees''"] by (simp add: prod_eq_iff)
  have b2: "execute_sql_query ''DROP TABLE employees;'' ?wd = (Inl not_select_error, ?wd)"
    by (simp add: execute_sql_query_def gate_drop)
  have c1: "generate_sql_query ''One?'' world_quota = (Inr ''SELECT 1;'', ?wq1)"
    by (rule generate_sql_query_quota)
  have c2: "execute_sql_query ''SELECT 1;'' ?wq1 = (Inr ([''1''], [[SInt 1]]), ?wq2)"
    by (rule execute_sql_query_quota)
  have c3: "generate_natural_answer ''One?'' ''SELECT 1;'' [''1''] [[SInt 1]] ?wq2 =
              (Inl (Exn OtherError ''quota exceeded''), ?wq3)"
    using generate_natural_answer_quota [of "''One?''"] by (simp add: prod_eq_iff)
  have A: "fst (ask_question ''How many employees?'' world_without_key) =
     [''question'' \<mapsto> PStr ''How many employees?'', ''sql_query'' \<mapsto> PNone, ''columns'' \<mapsto> PNone,
      ''rows'' \<mapsto> PNone, ''answer'' \<mapsto> PNone, ''error'' \<mapsto> PStr (str_exn key_error)]"
    using a ask_question_stage_failure
      [of "''How many employees?''" world_without_key key_error world_without_key]
    by simp
  have B: "fst (ask_question ''Remove the employees'' world_drop) =
     [''question'' \<mapsto> PStr ''Remove the employees'', ''sql_query'' \<mapsto> PStr ''DROP TABLE employees;'',
      ''columns'' \<mapsto> PNone, ''rows'' \<mapsto> PNone, ''answer'' \<mapsto> PNone,
      ''error'' \<mapsto> PStr ''Only SELECT queries are allowed. The generated query was not a SELECT statement.'']"
    using b1 b2 ask_question_stage_failure
      [of "''Remove the employees''" world_drop not_select_error ?wd "''DROP TABLE employees;''" ?wd]
    by (simp add: not_select_error_def str_exn_def)
  have C: "fst (ask_question ''One?'' world_quota) =
     [''question'' \<mapsto> PStr ''One?'', ''sql_query'' \<mapsto> PStr ''SELECT 1;'',
      ''columns'' \<mapsto> PStrList [''1''], ''rows'' \<mapsto> PRows [[SInt 1]], ''answer'' \<mapsto> PNone,
      ''error'' \<mapsto> PStr ''quota exceeded'']"
    using c1 c2 c3 ask_question_stage_failure
      [of "''One?''" world_quota "Exn OtherError ''quota exceeded''" ?wq1 "''SELECT 1;''" ?wq2
          "[''1'']" "[[SInt 1]]" ?wq3]
    by (simp add: str_exn_def)
  show ?thesis using A B C by blast
qed

text \<open>
  C10. For every question, the empty one and the blank ones too, the record has exactly
  the six keys question, sql_query, columns, rows, answer and error; question is the
  input as it is; each of the other five is null or the value its stage produced.
\<close>

theorem ask_question_record_shape:
  "dom (fst (ask_question q w)) =
     {''question'', ''sql_query'', ''columns'', ''rows'', ''answer'', ''error''} \<and>
   fst (ask_question q w) ''question'' = Some (PStr q) \<and>
   (fst (ask_question q w) ''sql_query'' = Some PNone \<or>
    (\<exists>sql w1. generate_sql_query q w = (Inr sql, w1) \<and>
       fst (ask_question q w) ''sql_query'' = Some (PStr sql))) \<and>
   (fst (ask_question q w) ''columns'' = Some PNone \<or>
    (\<exists>sql w1 cols rows w2. generate_sql_query q w = (Inr sql, w1) \<and>
       execute_sql_query sql w1 = (Inr (cols, rows), w2) \<and>
       fst (ask_question q w) ''columns'' = Some (PStrList cols))) \<and>
   (fst (ask_question q w) ''rows'' = Some PNone \<or>
    (\<exists>sql w1 cols rows w2. generate_sql_query q w = (Inr sql, w1) \<and>
       execute_sql_query sql w1 = (Inr (cols, rows), w2) \<and>
       fst (ask_question q w) ''rows'' = Some (PRows rows))) \<and>
   (fst (ask_question q w) ''answer'' = Some PNone \<or>
    (\<exists>sql w1 cols rows w2 answer w3. generate_sql_query q w = (Inr sql, w1) \<and>
       execute_sql_query sql w1 = (Inr (cols, rows), w2) \<and>
       generate_natural_answer q sql cols rows w2 = (Inr answer, w3) \<and>
       fst (ask_question q w) ''answer'' = Some (PStr answer))) \<and>
   (fst (ask_question q w) ''error'' = Some PNone \<or>
    (\<exists>e. fst (ask_question q w) ''error'' = Some (PStr (str_exn e)) \<and>
       (fst (generate_sql_query q w) = Inl e \<or>
        (\<exists>sql w1. generate_sql_query q w = (Inr sql, w1) \<and>
           (fst (execute_sql_query sql w1) = Inl e \<or>
            (\<exists>cols rows w2. execute_sql_query sql w1 = (Inr (cols, rows), w2) \<and>
               fst (generate_natural_answer q sql cols rows w2) = Inl e))))))"
proof -
  have d: "dom (fst (ask_question q w)) =
     {''question'', ''sql_query'', ''columns'', ''rows'', ''answer'', ''error''}"
    by (auto simp: ask_question_cases initial_result_def split: prod.splits sum.splits if_splits)
  have rest: "fst (ask_question q w) ''question'' = Some (PStr q)"
    by (simp add: ask_question_cases initial_result_def split: prod.splits sum.splits)
  show ?thesis
    apply (intro conjI d rest)
    apply (cases "generate_sql_query q w"; cases "fst (generate_sql_query q w)";
           simp add: ask_question_cases initial_result_def split: prod.splits sum.splits)+
    done
qed

subsection \<open>The credential\<close>

lemma configure_gemini_bad_key:
  assumes "api_key w = None \<or> api_key w = Some [] \<or> api_key w = Some ''your_google_api_key_here''"
  shows "configure_gemini w = Inl key_error"
  using assms by (auto simp: configure_gemini_def)

text \<open>
  C8, as amended. \<open>configure_gemini\<close> raises its ValueError exactly when the key is
  absent, empty or the placeholder. The check runs when a caller asks for the model, not
  when the module is loaded: with such a key, \<open>generate_sql_query\<close> and
  \<open>generate_natural_answer\<close> raise it before any model call or database access. Inside
  \<open>ask_question\<close> it is caught like every other failure of a stage: the record comes
  back with the message in error and the other result fields null.
\<close>

theorem configuration_error_at_first_use:
  "configure_gemini w =
     (if api_key w = None \<or> api_key w = Some [] \<or> api_key w = Some ''your_google_api_key_here''
      then Inl key_error else Inr ()) \<and>
   (api_key w = None \<or> api_key w = Some [] \<or> api_key w = Some ''your_google_api_key_here'' \<longrightarrow>
      generate_sql_query q w = (Inl key_error, w) \<and>
      generate_natural_answer q sql cols rows w = (Inl key_error, w) \<and>
      ask_question q w =
        ([''question'' \<mapsto> PStr q, ''sql_query'' \<mapsto> PNone, ''columns'' \<mapsto> PNone,
          ''rows'' \<mapsto> PNone, ''answer'' \<mapsto> PNone, ''error'' \<mapsto> PStr (str_exn key_error)], w))"
proof -
  have c: "configure_gemini w =
     (if api_key w = None \<or> api_key w = Some [] \<or> api_key w = Some ''your_google_api_key_here''
      then Inl key_error else Inr ())"
    by (auto simp: configure_gemini_def split: option.splits)
  have g: "generate_sql_query q w = (Inl key_error, w)"
    and n: "generate_natural_answer q sql cols rows w = (Inl key_error, w)"
    if "api_key w = None \<or> api_key w = Some [] \<or> api_key w = Some ''your_google_api_key_here''"
    using configure_gemini_bad_key [OF that]
    by (simp_all add: generate_sql_query_def generate_natural_answer_def get_gemini_model_def)
  have a: "ask_question q w =
        ([''question'' \<mapsto> PStr q, ''sql_query'' \<mapsto> PNone, ''columns'' \<mapsto> PNone,
          ''rows'' \<mapsto> PNone, ''answer'' \<mapsto> PNone, ''error'' \<mapsto> PStr (str_exn key_error)], w)"
    if "api_key w = None \<or> api_key w = Some [] \<or> api_key w = Some ''your_google_api_key_here''"
    using g [OF that] by (simp add: ask_question_cases initial_result_def)
  show ?thesis using c g n a by blast
qed

theorem configuration_error_at_first_use_witness:
  "api_key world_without_key = None \<and>
   configure_gemini world_without_key = Inl key_error \<and>
   generate_sql_query ''How many employees?'' world_without_key = (Inl key_error, world_without_key) \<and>
   ask_question ''How many employees?'' world_without_key =
     ([''question'' \<mapsto> PStr ''How many employees?'', ''sql_query'' \<mapsto> PNone, ''columns'' \<mapsto> PNone,
       ''rows'' \<mapsto> PNone, ''answer'' \<mapsto> PNone, ''error'' \<mapsto> PStr (str_exn key_error)],
      world_without_key)"
proof -
  have h: "api_key world_without_key = None"
    by (simp add: world_without_key_def example_world_def)
  show ?thesis
    using h configuration_error_at_first_use [of world_without_key "''How many employees?''"]
    by simp
qed

text \<open>
  C8 as stated has the configuration error surface rather than become the error field.
  Without a key, \<open>ask_question\<close> returns a record whose error field is the message.
\<close>

theorem configuration_error_counterexample:
  "fst (ask_question ''How many employees?'' world_without_key) ''error'' =
     Some (PStr (''Please set a valid GOOGLE_API_KEY in your .env file.'' @ [newline] @
                 ''Get one at: https://makersuite.google.com/app/apikey'')) \<and>
   fst (ask_question ''How many employees?'' world_without_key) ''answer'' = Some PNone"
  by (simp add: ask_question_cases generate_sql_query_without_key initial_result_def
      str_exn_def key_error_def)

subsection \<open>The schema catalog\<close>




subsection \<open>The seed data loader\<close>

lemma insert_sample_data_empty_tables: "insert_sample_data empty_tables = Inr seeded_database"
  by code_simp

lemma map_of_fresh:
  assumes "name \<notin> set (map fst pre)"
  shows "map_of (pre @ rest) name = map_of rest name"
proof -
  have "map_of pre name = None"
    using assms by (simp add: map_of_eq_None_iff)
  then show ?thesis
    by (simp add: map_add_def)
qed

lemma map_fresh:
  "name \<notin> set (map fst pre) \<Longrightarrow> map (\<lambda>(n, x). if n = name then (n, t') else (n, x)) pre = pre"
  by (induction pre) auto

lemma insert_into_fresh:
  assumes "name \<notin> set (map fst pre)"
  shows "insert_into name r (pre @ rest) =
           (case insert_into name r rest of Inl e \<Rightarrow> Inl e | Inr rest' \<Rightarrow> Inr (pre @ rest'))"
  using assms
  by (simp add: insert_into_def map_of_fresh map_fresh del: map_of_append
      split: option.splits sum.splits)

lemma executemany_fresh:
  assumes "name \<notin> set (map fst pre)"
  shows "executemany name rs (pre @ rest) =
           (case executemany name rs rest of Inl e \<Rightarrow> Inl e | Inr rest' \<Rightarrow> Inr (pre @ rest'))"
  using assms
proof (induction rs arbitrary: rest)
  case Nil
  then show ?case by simp
next
  case (Cons r rs)
  then show ?case
    by (simp add: insert_into_fresh split: sum.splits)
qed

lemma insert_sample_data_fresh:
  assumes "set seed_names \<inter> set (map fst pre) = {}"
  shows "insert_sample_data (pre @ rest) =
           (case insert_sample_data rest of Inl e \<Rightarrow> Inl e | Inr rest' \<Rightarrow> Inr (pre @ rest'))"
proof -
  have n: "''departments'' \<notin> set (map fst pre)" "''employees'' \<notin> set (map fst pre)"
    "''projects'' \<notin> set (map fst pre)" "''salaries'' \<notin> set (map fst pre)"
    "''project_assignments'' \<notin> set (map fst pre)"
    using assms by (auto simp: seed_names_def)
  show ?thesis
    unfolding insert_sample_data_def bind_def
    by (simp add: executemany_fresh [OF n(1)] executemany_fresh [OF n(2)]
        executemany_fresh [OF n(3)] executemany_fresh [OF n(4)] executemany_fresh [OF n(5)]
        split: sum.splits)
qed

lemma create_tables_fresh:
  assumes "set seed_names \<inter> set (map fst pre) = {}"
  shows "create_tables pre = Inr (pre @ empty_tables)"
proof -
  have n: "''departments'' \<notin> fst ` set pre" "''employees'' \<notin> fst ` set pre"
    "''projects'' \<notin> fst ` set pre" "''salaries'' \<notin> fst ` set pre"
    "''project_assignments'' \<notin> fst ` set pre"
    using assms by (auto simp: seed_names_def)
  show ?thesis
    unfolding create_tables_def bind_def create_table_def empty_tables_def
    using n by simp
qed

lemma drop_existing_tables_fresh:
  "set seed_names \<inter> set (map fst (drop_existing_tables db)) = {}"
  by (auto simp: seed_names_def drop_existing_tables_def drop_table_if_exists_def)

text \<open>
  Whatever the file holds, \<open>create_database\<close> succeeds once the connection is open: it
  leaves the tables of other names and the five seeded tables.
\<close>

lemma create_database_reachable:
  assumes "db_reachable w"
  shows "create_database w =
           (Inr (), w\<lparr>db_file := Some (drop_existing_tables (the_db w) @ seeded_database),
                      connects := connects w + 1\<rparr>)"
  using assms
  by (simp add: create_database_def connect_def the_db_def close_def Let_def
      create_tables_fresh [OF drop_existing_tables_fresh]
      insert_sample_data_fresh [OF drop_existing_tables_fresh]
      insert_sample_data_empty_tables split: option.splits)

lemma create_database_unreachable:
  assumes "\<not> db_reachable w"
  shows "create_database w = (Inl (Exn OperationalError ''unable to open database file''), w)"
  using assms by (simp add: create_database_def connect_def)

lemma seeded_row_counts:
  "row_count seeded_database ''employees'' = Some 15"
  "row_count seeded_database ''departments'' = Some 5"
  "row_count seeded_database ''projects'' = Some 5"
  "row_count seeded_database ''salaries'' = Some 15"
  "row_count seeded_database ''project_assignments'' = Some 11"
  by (simp_all add: row_count_def seeded_database_def employees_def departments_def projects_def
      salaries_def assignments_def)

lemma seeded_schema:
  "table_names seeded_database = seed_names"
  "map (table_info seeded_database) seed_names =
     [departments_columns, employees_columns, projects_columns, salaries_columns,
      project_assignments_columns]"
  by (simp_all add: table_names_def table_info_def seeded_database_def seed_names_def)

lemma initialize_database_fresh:
  assumes "db_file w = None" "db_reachable w"
  shows "initialize_database w =
           (Inr (), w\<lparr>db_file := Some seeded_database, connects := connects w + 1\<rparr>)"
  using assms
  by (simp add: initialize_database_def path_exists_def create_database_reachable the_db_def
      drop_existing_tables_def drop_table_if_exists_def)

lemma initialize_database_existing:
  assumes "db_file w \<noteq> None"
  shows "initialize_database w = (Inr (), w)"
  using assms by (simp add: initialize_database_def path_exists_def)

text \<open>
  C5. \<open>initialize_database\<close> is idempotent: a second call returns what the first
  returned and leaves the world the first call left. It creates the store only when
  no file exists at the path: an existing file is left as it is, and no connection is
  opened. When no file exists (and the path can be opened), one call and two calls
  both leave the seeded database: the five tables, with 15 employees, 5 departments,
  5 projects, 15 salaries and 11 project assignments.
\<close>

theorem initialize_database_idempotent:
  "initialize_database (snd (initialize_database w)) = initialize_database w \<and>
   (db_file w = None \<and> db_reachable w \<longrightarrow>
      fst (initialize_database w) = Inr () \<and>
      db_file (snd (initialize_database w)) = Some seeded_database \<and>
      db_file (snd (initialize_database (snd (initialize_database w)))) = Some seeded_database) \<and>
   table_names seeded_database =
     [''departments'', ''employees'', ''projects'', ''salaries'', ''project_assignments''] \<and>
   row_count seeded_database ''employees'' = Some 15 \<and>
   row_count seeded_database ''departments'' = Some 5 \<and>
   row_count seeded_database ''projects'' = Some 5 \<and>
   row_count seeded_database ''salaries'' = Some 15 \<and>
   row_count seeded_database ''project_assignments'' = Some 11 \<and>
   (db_file w \<noteq> None \<longrightarrow> initialize_database w = (Inr (), w))"
proof -
  have idem: "initialize_database (snd (initialize_database w)) = initialize_database w"
  proof (cases "db_file w")
    case (Some db)
    then show ?thesis by (simp add: initialize_database_existing)
  next
    case None
    show ?thesis
    proof (cases "db_reachable w")
      case True
      with None show ?thesis
        by (simp add: initialize_database_fresh initialize_database_existing)
    next
      case False
      with None show ?thesis
        by (simp add: initialize_database_def path_exists_def create_database_unreachable)
    qed
  qed
  have fresh: "fst (initialize_database w) = Inr () \<and>
      db_file (snd (initialize_database w)) = Some seeded_database \<and>
      db_file (snd (initialize_database (snd (initialize_database w)))) = Some seeded_database"
    if "db_file w = None \<and> db_reachable w"
    using that by (simp add: idem) (simp add: initialize_database_fresh)
  show ?thesis
    using idem fresh initialize_database_existing [of w] seeded_row_counts seeded_schema(1)
    by (simp add: seed_names_def)
qed

theorem initialize_database_idempotent_witness:
  "db_file world_without_key = None \<and> db_reachable world_without_key \<and>
   fst (initialize_database world_without_key) = Inr () \<and>
   db_file (snd (initialize_database world_without_key)) = Some seeded_database \<and>
   db_file (snd (initialize_database (snd (initialize_database world_without_key)))) =
     Some seeded_database \<and>
   db_file world_drop \<noteq> None \<and>
   initialize_database world_drop = (Inr (), world_drop)"
proof -
  have h1: "db_file world_without_key = None \<and> db_reachable world_without_key"
    by (simp add: world_without_key_def example_world_def)
  have h2: "db_file world_drop \<noteq> None"
    by (simp add: world_drop_def example_world_def)
  show ?thesis
    using h1 h2 initialize_database_idempotent [of world_without_key]
      initialize_database_idempotent [of world_drop]
    by simp
qed

subsection \<open>Lines\<close>

lemma split_nl_not_Nil: "split_nl s \<noteq> []"
  by (induction s) (auto split: list.splits)

lemma split_nl_no_newline: "newline \<notin> set s \<Longrightarrow> split_nl s = [s]"
  by (induction s) auto

lemma split_nl_append_newline:
  "newline \<notin> set a \<Longrightarrow> split_nl (a @ newline # b) = a # split_nl b"
  by (induction a) (auto split: list.splits simp: split_nl_not_Nil)

lemma split_nl_lines_no_newline: "l \<in> set (split_nl s) \<Longrightarrow> newline \<notin> set l"
proof (induction s arbitrary: l)
  case Nil
  then show ?case by simp
next
  case (Cons c cs)
  then show ?case
    by (cases "split_nl cs") (auto split: if_splits)
qed

lemma split_nl_join:
  assumes "xs \<noteq> []" "\<forall>x\<in>set xs. newline \<notin> set x"
  shows "split_nl (join [newline] xs) = xs"
  using assms
proof (induction "[newline]" xs rule: join.induct)
  case 1
  then show ?case by simp
next
  case (2 x)
  then show ?case by (simp add: split_nl_no_newline)
next
  case (3 x y ys)
  then show ?case by (simp add: split_nl_append_newline)
qed






subsection \<open>The results text of the answer prompt\<close>






subsection \<open>The clean-up of the model output\<close>

lemma split_nl_Cons:
  "split_nl (c # cs) =
     (if c = newline then [] # split_nl cs else (c # hd (split_nl cs)) # tl (split_nl cs))"
  by (cases "split_nl cs") (simp_all add: split_nl_not_Nil)

lemma strip_Nil: "strip [] = []"
  by (simp add: strip_def lstrip_def rstrip_def)

lemma not_fence_Nil: "\<not> startswith [] fence"
  by (simp add: startswith_def fence_def)

lemma isspace_newline: "isspace newline"
  by (simp add: isspace_def newline_def)

lemma strip_space_Cons: "isspace c \<Longrightarrow> strip (c # l) = strip l"
  by (simp add: strip_def lstrip_def)

lemma rstrip_snoc_space: "isspace c \<Longrightarrow> rstrip (x @ [c]) = rstrip x"
  by (simp add: rstrip_def)

lemma lstrip_snoc_space:
  "isspace c \<Longrightarrow> lstrip (p @ [c]) = (if list_all isspace p then [] else lstrip p @ [c])"
  by (induction p) (auto simp: lstrip_def)

lemma lstrip_all_space: "list_all isspace p \<Longrightarrow> lstrip p = []"
  by (induction p) (auto simp: lstrip_def)

lemma strip_snoc_space: "isspace c \<Longrightarrow> strip (p @ [c]) = strip p"
  by (auto simp: strip_def lstrip_snoc_space rstrip_snoc_space lstrip_all_space rstrip_def)

lemma fence_free_lines:
  "fence_free [] t = list_all (\<lambda>l. \<not> startswith (strip l) fence) (split_nl t)"
  by (cases "split_nl t") (simp_all add: fence_free_def split_nl_not_Nil)

lemma fence_free_Cons:
  "fence_free p (c # cs) =
     (if c = newline then \<not> startswith (strip p) fence \<and> fence_free [] cs
      else fence_free (p @ [c]) cs)"
  by (cases "split_nl cs") (simp_all add: fence_free_def split_nl_Cons split_nl_not_Nil)

lemma fence_free_drop_last_space:
  "isspace c \<Longrightarrow> fence_free p (v @ [c]) \<Longrightarrow> fence_free p v"
proof (induction v arbitrary: p)
  case Nil
  then show ?case
    by (auto simp: fence_free_def strip_snoc_space strip_Nil not_fence_Nil split: if_splits)
next
  case (Cons d v)
  then show ?case
    by (auto simp: fence_free_Cons split: if_splits)
qed

lemma fence_free_drop_spaces:
  "list_all isspace ws \<Longrightarrow> fence_free p (u @ ws) \<Longrightarrow> fence_free p u"
proof (induction ws rule: rev_induct)
  case Nil
  then show ?case by simp
next
  case (snoc c ws)
  then have "fence_free p ((u @ ws) @ [c])" "isspace c" "list_all isspace ws"
    by simp_all
  then show ?case
    using snoc.IH fence_free_drop_last_space by blast
qed

lemma rstrip_decompose: "\<exists>ws. list_all isspace ws \<and> x = rstrip x @ ws"
proof -
  have "rev x = takeWhile isspace (rev x) @ dropWhile isspace (rev x)"
    by simp
  then have "x = rev (dropWhile isspace (rev x)) @ rev (takeWhile isspace (rev x))"
    by (metis rev_append rev_rev_ident)
  moreover have "list_all isspace (rev (takeWhile isspace (rev x)))"
    by (simp add: list_all_iff) (metis set_takeWhileD)
  ultimately show ?thesis
    unfolding rstrip_def by blast
qed

lemma fence_free_rstrip: "fence_free p x \<Longrightarrow> fence_free p (rstrip x)"
  using rstrip_decompose [of x] fence_free_drop_spaces by metis

lemma fence_free_lstrip: "fence_free [] t \<Longrightarrow> fence_free [] (lstrip t)"
proof (induction t)
  case Nil
  then show ?case by (simp add: lstrip_def)
next
  case (Cons c cs)
  show ?case
  proof (cases "isspace c")
    case False
    then show ?thesis using Cons.prems by (simp add: lstrip_def)
  next
    case True
    have "fence_free [] cs"
    proof (cases "c = newline")
      case True
      then show ?thesis using Cons.prems by (simp add: fence_free_Cons)
    next
      case False
      then have "fence_free [c] cs"
        using Cons.prems by (simp add: fence_free_Cons)
      then show ?thesis
        using True by (simp add: fence_free_def strip_space_Cons)
    qed
    then have "fence_free [] (lstrip cs)"
      by (rule Cons.IH)
    then show ?thesis using True by (simp add: lstrip_def)
  qed
qed

lemma fence_free_strip: "fence_free [] t \<Longrightarrow> fence_free [] (strip t)"
  by (simp add: strip_def fence_free_lstrip fence_free_rstrip)

lemma fence_free_join_kept:
  "fence_free [] (join [newline] (filter (\<lambda>line. \<not> startswith (strip line) fence) (split_nl s)))"
proof (cases "filter (\<lambda>line. \<not> startswith (strip line) fence) (split_nl s) = []")
  case True
  then show ?thesis
    by (simp add: fence_free_def strip_Nil not_fence_Nil)
next
  case False
  have "\<forall>x\<in>set (filter (\<lambda>line. \<not> startswith (strip line) fence) (split_nl s)). newline \<notin> set x"
    by (auto simp: split_nl_lines_no_newline)
  then have "split_nl (join [newline] (filter (\<lambda>line. \<not> startswith (strip line) fence) (split_nl s)))
      = filter (\<lambda>line. \<not> startswith (strip line) fence) (split_nl s)"
    using False by (simp add: split_nl_join)
  then show ?thesis
    by (simp add: fence_free_lines list_all_iff)
qed

lemma clean_sql_fence_free:
  "startswith (strip raw) fence \<Longrightarrow>
     list_all (\<lambda>l. \<not> startswith (strip l) fence) (split_nl (clean_sql raw))"
  using fence_free_strip [OF fence_free_join_kept [of "strip raw"]]
  by (simp add: clean_sql_def Let_def fence_free_lines)

text \<open>
  C7, as amended. The output is trimmed first. When the trimmed output begins with a
  fence, closed or not, the lines whose trimmed form begins with a fence are removed,
  the other lines are joined again in their order, and the result is trimmed; the
  lines of the joined text are the lines kept, and no line of the result is a fence
  line. Otherwise the trimmed output is returned. An output wrapped in a fenced block
  begins with a fence.
\<close>

theorem clean_sql_fence_lines:
  "clean_sql raw =
     (if startswith (strip raw) fence
      then strip (join [newline]
                    (filter (\<lambda>line. \<not> startswith (strip line) fence) (split_nl (strip raw))))
      else strip raw) \<and>
   (filter (\<lambda>line. \<not> startswith (strip line) fence) (split_nl (strip raw)) \<noteq> [] \<longrightarrow>
      split_nl (join [newline]
                  (filter (\<lambda>line. \<not> startswith (strip line) fence) (split_nl (strip raw)))) =
        filter (\<lambda>line. \<not> startswith (strip line) fence) (split_nl (strip raw))) \<and>
   (startswith (strip raw) fence \<longrightarrow>
      list_all (\<lambda>l. \<not> startswith (strip l) fence) (split_nl (clean_sql raw))) \<and>
   (wrapped_in_fence raw \<longrightarrow> startswith (strip raw) fence)"
proof -
  have "\<forall>x\<in>set (filter (\<lambda>line. \<not> startswith (strip line) fence) (split_nl (strip raw))).
          newline \<notin> set x"
    by (auto simp: split_nl_lines_no_newline)
  then show ?thesis
    using clean_sql_fence_free [of raw]
    by (simp add: clean_sql_def Let_def wrapped_in_fence_def split_nl_join)
qed

theorem clean_sql_fence_lines_witness:
  "wrapped_in_fence (fence @ ''sql'' @ [newline] @ ''SELECT 1;'' @ [newline] @ fence) \<and>
   startswith (strip (fence @ ''sql'' @ [newline] @ ''SELECT 1;'' @ [newline] @ fence)) fence \<and>
   filter (\<lambda>line. \<not> startswith (strip line) fence)
     (split_nl (strip (fence @ ''sql'' @ [newline] @ ''SELECT 1;'' @ [newline] @ fence))) =
     [''SELECT 1;''] \<and>
   clean_sql (fence @ ''sql'' @ [newline] @ ''SELECT 1;'' @ [newline] @ fence) = ''SELECT 1;''"
proof -
  let ?raw = "fence @ ''sql'' @ [newline] @ ''SELECT 1;'' @ [newline] @ fence"
  have w: "wrapped_in_fence ?raw"
    by code_simp
  have k: "filter (\<lambda>line. \<not> startswith (strip line) fence) (split_nl (strip ?raw)) = [''SELECT 1;'']"
    by code_simp
  have s: "strip ''SELECT 1;'' = ''SELECT 1;''"
    by code_simp
  show ?thesis
    using w k s clean_sql_fence_lines [of ?raw] by simp
qed

text \<open>
  C7 as stated returns an output that is not wrapped in a fenced block merely trimmed.
  An opening fence that is never closed is removed all the same.
\<close>

theorem clean_sql_unclosed_fence_counterexample:
  "\<not> wrapped_in_fence (fence @ ''sql'' @ [newline] @ ''SELECT 1;'') \<and>
   strip (fence @ ''sql'' @ [newline] @ ''SELECT 1;'') = fence @ ''sql'' @ [newline] @ ''SELECT 1;'' \<and>
   clean_sql (fence @ ''sql'' @ [newline] @ ''SELECT 1;'') = ''SELECT 1;'' \<and>
   clean_sql (fence @ ''sql'' @ [newline] @ ''SELECT 1;'') \<noteq>
     strip (fence @ ''sql'' @ [newline] @ ''SELECT 1;'')"
  by code_simp
end
